theory Spec2Isabelle
  imports Complex_Main "HOL-Library.Word"
begin

unbundle bit_operations_syntax

section \<open>GraphViewer: the function model and the coordinate transform\<close>

text \<open>
  The development follows \<^verbatim>\<open>GraphViewer.cpp\<close>. The source evaluates the
  coordinate transform in IEEE double precision and casts the two coordinates to
  \<^verbatim>\<open>FLOAT\<close>. The model evaluates the same expression over the real numbers. The
  two agree wherever every intermediate result is representable exactly; the
  rounding of an inexact result, overflow, infinities and NaN are not described
  by the model. Where a divisor is zero the source obtains NaN or an infinity and
  goes on; the model gives no value there (\<open>None\<close>) and so says nothing about what
  the source returns in that case.

  For this reason the properties proved of \<open>ComputePoint\<close> below are only such as
  do not depend on rounding: results that are exact in floating point as well
  (\<open>0 / d = 0\<close>, \<open>d / d = 1\<close>, \<open>h - 0 = h\<close>, \<open>h - h = 0\<close>), bounds that rounding to
  nearest preserves because it is monotone and leaves \<open>0\<close>, \<open>1\<close> and the surface
  height fixed, and the order and the number of the calls of a redraw, in which
  the computed points occur only as opaque values.
\<close>

subsection \<open>struct InputFunction (lines 12-33)\<close>

record InputFunction =
  func :: "real \<Rightarrow> real"
  startX :: real
  endX :: real
  startY :: real
  endY :: real


subsection \<open>Direct2D value types\<close>

record D2D1_SIZE_F =
  width :: real
  height :: real

record D2D1_POINT_2F =
  point_x :: real
  point_y :: real

definition Point2F :: "real \<Rightarrow> real \<Rightarrow> D2D1_POINT_2F" where
  "Point2F px py = \<lparr> point_x = px, point_y = py \<rparr>"

text \<open>Division of two doubles; no finite quotient exists when the divisor is zero.\<close>

definition fdiv :: "real \<Rightarrow> real \<Rightarrow> real option" where
  "fdiv a b = (if b = 0 then None else Some (a / b))"

subsection \<open>ComputePoint (lines 284-299)\<close>

text \<open>Lines 286-288: the domain value \<^verbatim>\<open>argX\<close> of a pixel column.\<close>

definition ComputePoint_argX :: "InputFunction \<Rightarrow> D2D1_SIZE_F \<Rightarrow> int \<Rightarrow> real option" where
  "ComputePoint_argX inputFunction sz x =
     (case fdiv (real_of_int x) (width sz) of
        None \<Rightarrow> None
      | Some q \<Rightarrow> Some (q * (endX inputFunction - startX inputFunction) + startX inputFunction))"

text \<open>Lines 292-296: the screen ordinate of a function value.\<close>

definition ComputePoint_y :: "InputFunction \<Rightarrow> D2D1_SIZE_F \<Rightarrow> real \<Rightarrow> real option" where
  "ComputePoint_y inputFunction sz val =
     (case fdiv (val - startY inputFunction) (endY inputFunction - startY inputFunction) of
        None \<Rightarrow> None
      | Some r \<Rightarrow> Some (height sz - height sz * r))"

definition ComputePoint :: "InputFunction \<Rightarrow> D2D1_SIZE_F \<Rightarrow> int \<Rightarrow> D2D1_POINT_2F option" where
  "ComputePoint inputFunction sz x =
     (case ComputePoint_argX inputFunction sz x of
        None \<Rightarrow> None
      | Some argX \<Rightarrow>
          (let val = func inputFunction argX in
           case ComputePoint_y inputFunction sz val of
             None \<Rightarrow> None
           | Some y \<Rightarrow> Some (Point2F (real_of_int x) y)))"

section \<open>The renderer: cached device resources and the redraw\<close>

text \<open>
  Direct2D and the window manager are outside the program. Their objects are
  modelled by the state the program can observe: a render target by its pixel
  size, a brush by its colour. The results of the platform calls made while one
  message is handled are collected in a record \<open>Host\<close>. The calls a redraw issues
  on the render target are returned as a list, in the order of issue.

  \<^verbatim>\<open>HRESULT\<close> is a 32-bit signed integer; \<^verbatim>\<open>FAILED\<close>, \<^verbatim>\<open>SUCCEEDED\<close> and the
  codes are the definitions of the Windows SDK headers. \<^verbatim>\<open>TRYRET\<close> is taken in
  its release form (line 40).

  At line 325 the source writes \<^verbatim>\<open>hr = S_OK();\<close>. With the macro of the SDK,
  \<^verbatim>\<open>S_OK\<close> is the constant \<^verbatim>\<open>((HRESULT)0L)\<close>, which cannot be called, so the source
  does not determine the value that \<^verbatim>\<open>hr\<close> holds after this line. The model
  takes that value as a parameter, the field \<open>S_OK_call\<close> of \<open>Host\<close>, and nothing
  is assumed about it.

  The fields \<^verbatim>\<open>m_hwnd\<close> and \<^verbatim>\<open>m_pDirect2dFactory\<close> are assigned by
  \<^verbatim>\<open>Initialize\<close> before the first message is dispatched and are only handed to
  platform calls afterwards; the state record keeps the two cached resources
  and the input function. A render target reports its size (\<^verbatim>\<open>GetSize\<close>) as the
  pixel size it was created with or last resized to, which is what Direct2D
  returns at 96 DPI. Pixel columns are far below \<open>2 ^ 31\<close>, so the loop counter of
  type \<^verbatim>\<open>int\<close> is an unbounded integer.
\<close>

type_synonym HRESULT = "32 word"
type_synonym UINT32 = "32 word"
type_synonym LONG = "32 word"
type_synonym LPARAM = "64 word"
type_synonym LRESULT = "64 word"

definition S_OK :: HRESULT where
  "S_OK = 0"

definition E_FAIL :: HRESULT where
  "E_FAIL = 0x80004005"

definition D2DERR_RECREATE_TARGET :: HRESULT where
  "D2DERR_RECREATE_TARGET = 0x8899000C"

definition FAILED :: "HRESULT \<Rightarrow> bool" where
  "FAILED hr = (sint hr < 0)"

definition SUCCEEDED :: "HRESULT \<Rightarrow> bool" where
  "SUCCEEDED hr = (0 \<le> sint hr)"

definition LOWORD :: "LPARAM \<Rightarrow> 16 word" where
  "LOWORD l = ucast (l AND 0xffff)"

definition HIWORD :: "LPARAM \<Rightarrow> 16 word" where
  "HIWORD l = ucast (drop_bit 16 l AND 0xffff)"

record RECT =
  left :: LONG
  top :: LONG
  right :: LONG
  bottom :: LONG

record D2D1_SIZE_U =
  width_u :: UINT32
  height_u :: UINT32

definition SizeU :: "UINT32 \<Rightarrow> UINT32 \<Rightarrow> D2D1_SIZE_U" where
  "SizeU w h = \<lparr> width_u = w, height_u = h \<rparr>"

datatype ColorF = Red | White

datatype ID2D1SolidColorBrush = SolidColorBrush ColorF

record ID2D1HwndRenderTarget =
  pixelSize :: D2D1_SIZE_U

definition GetSize :: "ID2D1HwndRenderTarget \<Rightarrow> D2D1_SIZE_F" where
  "GetSize rt =
     \<lparr> width = real (unat (width_u (pixelSize rt))),
       height = real (unat (height_u (pixelSize rt))) \<rparr>"

definition Resize :: "D2D1_SIZE_U \<Rightarrow> ID2D1HwndRenderTarget \<Rightarrow> ID2D1HwndRenderTarget" where
  "Resize s rt = rt \<lparr> pixelSize := s \<rparr>"

text \<open>The calls issued on the render target between BeginDraw and EndDraw.\<close>

datatype DrawCall =
    BeginDraw
  | SetTransform_Identity
  | Clear ColorF
  | DrawLine "D2D1_POINT_2F option" "D2D1_POINT_2F option" "ID2D1SolidColorBrush option" real
  | EndDraw

text \<open>The calls a window procedure makes on the window manager and the debug console.\<close>

datatype HostCall =
    ValidateRect
  | InvalidateRect
  | WriteToDebugConsole HRESULT
  | PostQuitMessage int
  | DefWindowProc

record Host =
  clientRect :: RECT
  CreateHwndRenderTarget_hr :: HRESULT
  CreateSolidColorBrush_hr :: HRESULT
  EndDraw_hr :: HRESULT
  S_OK_call :: HRESULT
  DefWindowProc_result :: LRESULT

subsection \<open>class App (lines 73-122)\<close>

record App =
  m_inputFunction :: InputFunction
  m_pRenderTarget :: "ID2D1HwndRenderTarget option"
  m_pGraphLineBrush :: "ID2D1SolidColorBrush option"

definition SafeRelease :: "'a option \<Rightarrow> 'a option" where
  "SafeRelease obj = (case obj of None \<Rightarrow> None | Some _ \<Rightarrow> None)"

definition App_constructor :: "InputFunction \<Rightarrow> App" where
  "App_constructor inputFunction =
     \<lparr> m_inputFunction = inputFunction, m_pRenderTarget = None, m_pGraphLineBrush = None \<rparr>"

definition App_destructor :: "App \<Rightarrow> App" where
  "App_destructor app =
     app \<lparr> m_pRenderTarget := SafeRelease (m_pRenderTarget app),
           m_pGraphLineBrush := SafeRelease (m_pGraphLineBrush app) \<rparr>"

subsection \<open>CreateDeviceResources (lines 247-273)\<close>

text \<open>
  A creation call that fails leaves its out-parameter null; \<^verbatim>\<open>TRYRET\<close> then
  returns the failure code at once. The first component of the result is the
  returned code, the second the state at return.
\<close>

definition CreateDeviceResources :: "Host \<Rightarrow> App \<Rightarrow> HRESULT \<times> App" where
  "CreateDeviceResources host app =
     (case (if m_pRenderTarget app = None then
              (if FAILED (CreateHwndRenderTarget_hr host)
               then Inl (CreateHwndRenderTarget_hr host)
               else Inr (app \<lparr> m_pRenderTarget :=
                          Some \<lparr> pixelSize =
                            SizeU (right (clientRect host) - left (clientRect host))
                                  (bottom (clientRect host) - top (clientRect host)) \<rparr> \<rparr>))
            else Inr app) of
        Inl hr \<Rightarrow> (hr, app)
      | Inr app1 \<Rightarrow>
          (if m_pGraphLineBrush app1 = None then
             (if FAILED (CreateSolidColorBrush_hr host)
              then (CreateSolidColorBrush_hr host, app1)
              else (S_OK, app1 \<lparr> m_pGraphLineBrush := Some (SolidColorBrush Red) \<rparr>))
           else (S_OK, app1)))"

subsection \<open>OnResize (lines 275-281)\<close>

definition OnResize :: "UINT32 \<Rightarrow> UINT32 \<Rightarrow> App \<Rightarrow> App" where
  "OnResize w h app =
     (case m_pRenderTarget app of
        None \<Rightarrow> app
      | Some rt \<Rightarrow> app \<lparr> m_pRenderTarget := Some (Resize (SizeU w h) rt) \<rparr>)"

subsection \<open>OnRender (lines 301-331)\<close>

text \<open>
  The loop of lines 316-320, started at column \<open>x\<close> with the previous point
  \<open>prevPoint\<close>: the DrawLine calls it issues, in order.
\<close>

function drawLines ::
  "InputFunction \<Rightarrow> D2D1_SIZE_F \<Rightarrow> ID2D1SolidColorBrush option \<Rightarrow> int \<Rightarrow> int \<Rightarrow>
   D2D1_POINT_2F option \<Rightarrow> DrawCall list" where
  "drawLines f rtSize brush maxX x prevPoint =
     (if x \<le> maxX then
        (let p = ComputePoint f rtSize x in
         DrawLine prevPoint p brush 2 # drawLines f rtSize brush maxX (x + 1) p)
      else [])"
  by pat_completeness auto
termination
  by (relation "measure (\<lambda>(f, rtSize, brush, maxX, x, prevPoint). nat (maxX + 1 - x))") auto

declare drawLines.simps [simp del]

text \<open>
  The result of a redraw: the returned code, the state at return, and the calls
  issued on the render target. \<open>None\<close> stands for a call through a null
  \<^verbatim>\<open>m_pRenderTarget\<close>; \<open>OnRender_returns\<close> below shows that it does not occur.
\<close>

definition OnRender :: "Host \<Rightarrow> App \<Rightarrow> (HRESULT \<times> App \<times> DrawCall list) option" where
  "OnRender host app =
     (case CreateDeviceResources host app of
        (hr0, app1) \<Rightarrow>
          if FAILED hr0 then Some (hr0, app1, [])
          else
            (case m_pRenderTarget app1 of
               None \<Rightarrow> None
             | Some rt \<Rightarrow>
                 (let rtSize = GetSize rt;
                      prevPoint = ComputePoint (m_inputFunction app1) rtSize 0;
                      maxX = \<lceil>width rtSize\<rceil>;
                      calls = [BeginDraw, SetTransform_Identity, Clear White]
                              @ drawLines (m_inputFunction app1) rtSize
                                  (m_pGraphLineBrush app1) maxX 1 prevPoint
                              @ [EndDraw];
                      hr = EndDraw_hr host
                  in if hr = D2DERR_RECREATE_TARGET
                     then Some (S_OK_call host,
                                app1 \<lparr> m_pRenderTarget := SafeRelease (m_pRenderTarget app1),
                                       m_pGraphLineBrush := SafeRelease (m_pGraphLineBrush app1) \<rparr>,
                                calls)
                     else Some (hr, app1, calls))))"

subsection \<open>WndProcCore (lines 215-245)\<close>

datatype Message = WM_SIZE LPARAM | WM_DISPLAYCHANGE | WM_PAINT | WM_DESTROY | WM_other

definition WndProcCore ::
  "Host \<Rightarrow> Message \<Rightarrow> App \<Rightarrow> (LRESULT \<times> App \<times> HostCall list \<times> DrawCall list) option" where
  "WndProcCore host message app =
     (case message of
        WM_SIZE lParam \<Rightarrow>
          Some (0, OnResize (ucast (LOWORD lParam)) (ucast (HIWORD lParam)) app, [], [])
      | WM_DISPLAYCHANGE \<Rightarrow> Some (0, app, [InvalidateRect], [])
      | WM_PAINT \<Rightarrow>
          (case OnRender host app of
             None \<Rightarrow> None
           | Some (renderResult, app1, calls) \<Rightarrow>
               if SUCCEEDED renderResult
               then Some (0, app1, [ValidateRect], calls)
               else Some (0, app1, [WriteToDebugConsole renderResult], calls))
      | WM_DESTROY \<Rightarrow> Some (1, app, [PostQuitMessage 0], [])
      | WM_other \<Rightarrow> Some (DefWindowProc_result host, app, [DefWindowProc], []))"

section \<open>Observations on a redraw, reachable states, sample inputs\<close>



text \<open>
  The states of an \<^verbatim>\<open>App\<close> object: the constructor's state, the state after any
  message handled by \<^verbatim>\<open>WndProcCore\<close> under any behaviour of the host, and the
  state left by the destructor.
\<close>

inductive reachable :: "App \<Rightarrow> bool" where
  constructed: "reachable (App_constructor inputFunction)"
| handled: "reachable app \<Longrightarrow> WndProcCore host message app = Some (result, app', hostCalls, drawCalls)
     \<Longrightarrow> reachable app'"
| destroyed: "reachable app \<Longrightarrow> reachable (App_destructor app)"

text \<open>Sample inputs on which the definitions are evaluated.\<close>

definition identity_plot :: InputFunction where
  "identity_plot = \<lparr> func = (\<lambda>x. x), startX = 0, endX = 6, startY = - (3 / 2), endY = 3 / 2 \<rparr>"

definition host_ok :: Host where
  "host_ok = \<lparr> clientRect = \<lparr> left = 0, top = 0, right = 2, bottom = 2 \<rparr>,
     CreateHwndRenderTarget_hr = S_OK, CreateSolidColorBrush_hr = S_OK,
     EndDraw_hr = S_OK, S_OK_call = S_OK, DefWindowProc_result = 0 \<rparr>"

definition host_no_target :: Host where
  "host_no_target = host_ok \<lparr> CreateHwndRenderTarget_hr := E_FAIL \<rparr>"

definition host_stale :: Host where
  "host_stale = host_ok \<lparr> EndDraw_hr := D2DERR_RECREATE_TARGET \<rparr>"

definition app_ready :: App where
  "app_ready = \<lparr> m_inputFunction = identity_plot,
      m_pRenderTarget = Some \<lparr> pixelSize = SizeU 2 2 \<rparr>,
      m_pGraphLineBrush = Some (SolidColorBrush Red) \<rparr>"

definition frame_2x2 :: "DrawCall list" where
  "frame_2x2 =
     [BeginDraw, SetTransform_Identity, Clear White,
      DrawLine (Some \<lparr> point_x = 0, point_y = 1 \<rparr>) (Some \<lparr> point_x = 1, point_y = - 1 \<rparr>)
        (Some (SolidColorBrush Red)) 2,
      DrawLine (Some \<lparr> point_x = 1, point_y = - 1 \<rparr>) (Some \<lparr> point_x = 2, point_y = - 3 \<rparr>)
        (Some (SolidColorBrush Red)) 2,
      EndDraw]"



definition host_stale_failed :: Host where
  "host_stale_failed = host_stale \<lparr> S_OK_call := E_FAIL \<rparr>"

definition host_no_brush :: Host where
  "host_no_brush = host_ok \<lparr> CreateSolidColorBrush_hr := E_FAIL \<rparr>"



section \<open>Properties of the coordinate transform\<close>






section \<open>Properties of the renderer\<close>

subsection \<open>Result codes\<close>

lemma not_FAILED_S_OK: "\<not> FAILED S_OK"
  by (simp add: FAILED_def S_OK_def)

lemma FAILED_D2DERR_RECREATE_TARGET: "FAILED D2DERR_RECREATE_TARGET"
  by (simp add: FAILED_def D2DERR_RECREATE_TARGET_def)

lemma SUCCEEDED_iff: "SUCCEEDED hr \<longleftrightarrow> \<not> FAILED hr"
  by (auto simp: SUCCEEDED_def FAILED_def)

lemma FAILED_E_FAIL: "FAILED E_FAIL"
  by (simp add: FAILED_def E_FAIL_def)

subsection \<open>The line-drawing loop\<close>

lemma drawLines_eq:
  "drawLines f sz b maxX x prev =
     (if x \<le> maxX then
        DrawLine prev (ComputePoint f sz x) b 2 #
        map (\<lambda>i. DrawLine (ComputePoint f sz (i - 1)) (ComputePoint f sz i) b 2) [x + 1..maxX]
      else [])"
proof (induction f sz b maxX x prev rule: drawLines.induct)
  case (1 f rtSize brush maxX x prevPoint)
  show ?case
  proof (cases "x \<le> maxX")
    case True
    have "[x + 1..maxX] = (if x + 1 \<le> maxX then (x + 1) # [x + 1 + 1..maxX] else [])"
      by (simp add: upto_rec1)
    with True 1 show ?thesis
      by (subst drawLines.simps) (simp add: Let_def)
  next
    case False
    then show ?thesis by (subst drawLines.simps) simp
  qed
qed

lemma drawLines_from_column:
  "drawLines f sz b maxX x (ComputePoint f sz (x - 1)) =
     map (\<lambda>i. DrawLine (ComputePoint f sz (i - 1)) (ComputePoint f sz i) b 2) [x..maxX]"
  by (subst drawLines_eq) (simp add: upto_rec1)

lemma GetSize_nonneg: "0 \<le> width (GetSize rt) \<and> 0 \<le> height (GetSize rt)"
  unfolding GetSize_def by (simp del: of_nat_unat)

lemma ceiling_width_GetSize: "\<lceil>width (GetSize rt)\<rceil> = int (unat (width_u (pixelSize rt)))"
  unfolding GetSize_def by (simp del: of_nat_unat)

subsection \<open>Resource creation and the shape of a redraw\<close>

lemma CreateDeviceResources_success:
  assumes "CreateDeviceResources host app = (hr, app1)" and "\<not> FAILED hr"
  shows "hr = S_OK \<and> m_pRenderTarget app1 \<noteq> None \<and> m_pGraphLineBrush app1 \<noteq> None"
  using assms by (auto simp: CreateDeviceResources_def split: if_splits sum.splits)

lemma CreateDeviceResources_inputFunction:
  "CreateDeviceResources host app = (hr, app1) \<Longrightarrow> m_inputFunction app1 = m_inputFunction app"
  by (auto simp: CreateDeviceResources_def split: if_splits sum.splits)

lemma CreateDeviceResources_present:
  assumes "m_pRenderTarget app \<noteq> None" and "m_pGraphLineBrush app \<noteq> None"
  shows "CreateDeviceResources host app = (S_OK, app)"
  using assms by (auto simp: CreateDeviceResources_def split: if_splits sum.splits)

lemma CreateDeviceResources_recreates:
  assumes "\<not> FAILED (CreateHwndRenderTarget_hr host)"
    and "\<not> FAILED (CreateSolidColorBrush_hr host)"
  shows "\<exists>app2. CreateDeviceResources host app = (S_OK, app2) \<and>
           m_pRenderTarget app2 \<noteq> None \<and> m_pGraphLineBrush app2 \<noteq> None"
  using assms by (auto simp: CreateDeviceResources_def)

lemma WndProcCore_WM_PAINT:
  assumes "OnRender host app = Some (hr, app1, calls)"
  shows "WndProcCore host WM_PAINT app =
           Some (0, app1, [if FAILED hr then WriteToDebugConsole hr else ValidateRect], calls)"
  using assms by (simp add: WndProcCore_def SUCCEEDED_iff)

lemma OnRender_returns: "\<exists>hr app' calls. OnRender host app = Some (hr, app', calls)"
proof (cases "CreateDeviceResources host app")
  case (Pair hr0 app1)
  show ?thesis
  proof (cases "FAILED hr0")
    case True
    with Pair show ?thesis by (simp add: OnRender_def)
  next
    case False
    with Pair CreateDeviceResources_success obtain rt where "m_pRenderTarget app1 = Some rt"
      by blast
    with Pair False show ?thesis by (simp add: OnRender_def Let_def)
  qed
qed

lemma OnRender_success_path:
  assumes "CreateDeviceResources host app = (hr0, app1)" and "\<not> FAILED hr0"
    and "m_pRenderTarget app1 = Some rt"
  shows "OnRender host app =
     Some (if EndDraw_hr host = D2DERR_RECREATE_TARGET then S_OK_call host else EndDraw_hr host,
           if EndDraw_hr host = D2DERR_RECREATE_TARGET
           then app1 \<lparr> m_pRenderTarget := None, m_pGraphLineBrush := None \<rparr> else app1,
           [BeginDraw, SetTransform_Identity, Clear White]
           @ map (\<lambda>x. DrawLine (ComputePoint (m_inputFunction app) (GetSize rt) (x - 1))
                               (ComputePoint (m_inputFunction app) (GetSize rt) x)
                               (m_pGraphLineBrush app1) 2)
                 [1..\<lceil>width (GetSize rt)\<rceil>]
           @ [EndDraw])"
proof -
  have f: "m_inputFunction app1 = m_inputFunction app"
    using assms(1) by (rule CreateDeviceResources_inputFunction)
  have d: "drawLines (m_inputFunction app) (GetSize rt) (m_pGraphLineBrush app1)
             \<lceil>width (GetSize rt)\<rceil> 1 (ComputePoint (m_inputFunction app) (GetSize rt) 0)
           = map (\<lambda>x. DrawLine (ComputePoint (m_inputFunction app) (GetSize rt) (x - 1))
                               (ComputePoint (m_inputFunction app) (GetSize rt) x)
                               (m_pGraphLineBrush app1) 2)
                 [1..\<lceil>width (GetSize rt)\<rceil>]"
    using drawLines_from_column [of "m_inputFunction app" "GetSize rt" "m_pGraphLineBrush app1"
        "\<lceil>width (GetSize rt)\<rceil>" 1] by simp
  show ?thesis
    using assms by (simp add: OnRender_def Let_def f d SafeRelease_def split: option.splits)
qed

subsection \<open>Evaluation on the sample inputs\<close>

lemmas example_defs =
  identity_plot_def host_ok_def host_no_target_def host_stale_def app_ready_def frame_2x2_def
  App_constructor_def

lemmas eval_defs =
  CreateDeviceResources_def OnRender_def GetSize_def SizeU_def Resize_def OnResize_def
  ComputePoint_def ComputePoint_argX_def ComputePoint_y_def Point2F_def fdiv_def
  FAILED_def SUCCEEDED_def S_OK_def E_FAIL_def D2DERR_RECREATE_TARGET_def SafeRelease_def
  WndProcCore_def drawLines.simps Let_def

lemma CreateDeviceResources_ok_example:
  "CreateDeviceResources host_ok (App_constructor identity_plot) = (S_OK, app_ready)"
  by (simp add: example_defs eval_defs)

lemma OnRender_ok_example:
  "OnRender host_ok (App_constructor identity_plot) = Some (S_OK, app_ready, frame_2x2)"
  by (simp add: example_defs eval_defs)


lemma OnRender_no_target_example:
  "OnRender host_no_target (App_constructor identity_plot)
     = Some (E_FAIL, App_constructor identity_plot, [])"
  by (simp add: example_defs eval_defs)

subsection \<open>The redraw loop\<close>

text \<open>
  Claim C2. A redraw that obtains its resources, on a surface of width \<open>w\<close>, issues
  BeginDraw, the identity transform and the clear to white, then for the columns
  \<open>x = 1, ..., ceil w\<close> in increasing order one DrawLine from the point of column
  \<open>x - 1\<close> to the point of column \<open>x\<close> with the cached brush and stroke width 2,
  then EndDraw; the number of line segments is \<open>ceil w\<close>. The loop itself produces
  these segments for every surface size, also one with a fractional width.
\<close>

theorem OnRender_line_segments:
  assumes "CreateDeviceResources host app = (hr0, app1)" and "\<not> FAILED hr0"
  shows "\<exists>rt hr app'.
           m_pRenderTarget app1 = Some rt \<and>
           OnRender host app =
             Some (hr, app',
                   [BeginDraw, SetTransform_Identity, Clear White]
                   @ map (\<lambda>x. DrawLine (ComputePoint (m_inputFunction app) (GetSize rt) (x - 1))
                                       (ComputePoint (m_inputFunction app) (GetSize rt) x)
                                       (m_pGraphLineBrush app1) 2)
                         [1..\<lceil>width (GetSize rt)\<rceil>]
                   @ [EndDraw]) \<and>
           int (length [1..\<lceil>width (GetSize rt)\<rceil>]) = \<lceil>width (GetSize rt)\<rceil> \<and>
           (\<forall>f sz b. drawLines f sz b \<lceil>width sz\<rceil> 1 (ComputePoint f sz 0) =
              map (\<lambda>x. DrawLine (ComputePoint f sz (x - 1)) (ComputePoint f sz x) b 2)
                  [1..\<lceil>width sz\<rceil>])"
proof -
  from assms CreateDeviceResources_success obtain rt where rt: "m_pRenderTarget app1 = Some rt"
    by blast
  have "0 \<le> \<lceil>width (GetSize rt)\<rceil>"
    using GetSize_nonneg [of rt] by (simp add: zero_le_ceiling)
  then have "int (length [1..\<lceil>width (GetSize rt)\<rceil>]) = \<lceil>width (GetSize rt)\<rceil>"
    by simp
  moreover have "\<forall>f sz b. drawLines f sz b \<lceil>width sz\<rceil> 1 (ComputePoint f sz 0) =
              map (\<lambda>x. DrawLine (ComputePoint f sz (x - 1)) (ComputePoint f sz x) b 2)
                  [1..\<lceil>width sz\<rceil>]"
  proof (intro allI)
    fix f sz b
    show "drawLines f sz b \<lceil>width sz\<rceil> 1 (ComputePoint f sz 0) =
            map (\<lambda>x. DrawLine (ComputePoint f sz (x - 1)) (ComputePoint f sz x) b 2)
                [1..\<lceil>width sz\<rceil>]"
      using drawLines_from_column [of f sz b "\<lceil>width sz\<rceil>" 1] by simp
  qed
  ultimately show ?thesis
    using rt OnRender_success_path [OF assms rt] by blast
qed

theorem OnRender_line_segments_witness:
  "CreateDeviceResources host_ok (App_constructor identity_plot) = (S_OK, app_ready) \<and>
   \<not> FAILED S_OK \<and>
   OnRender host_ok (App_constructor identity_plot) = Some (S_OK, app_ready, frame_2x2) \<and>
   int (length [1..\<lceil>width (GetSize \<lparr> pixelSize = SizeU 2 2 \<rparr>)\<rceil>]) = 2"
proof -
  have c: "CreateDeviceResources host_ok (App_constructor identity_plot) = (S_OK, app_ready)"
    by (rule CreateDeviceResources_ok_example)
  have n: "\<not> FAILED S_OK"
    by (rule not_FAILED_S_OK)
  from OnRender_line_segments [OF c n] show ?thesis
    using c n by (auto simp: app_ready_def OnRender_ok_example GetSize_def SizeU_def)
qed

subsection \<open>Failure paths\<close>

text \<open>
  Claim C4. When EndDraw at the end of a redraw reports
  \<^verbatim>\<open>D2DERR_RECREATE_TARGET\<close>, the redraw releases the cached render target and
  the cached brush, and from the state left behind the next resource creation
  builds both anew. The code it returns is the value left in \<^verbatim>\<open>hr\<close> by line
  325, which the source does not determine; the paint handler validates the
  window if that value is a success code and writes it to the debug console
  otherwise.
\<close>

theorem OnRender_stale_surface_releases:
  assumes "CreateDeviceResources host app = (hr0, app1)" and "\<not> FAILED hr0"
    and "EndDraw_hr host = D2DERR_RECREATE_TARGET"
  shows "\<exists>app' calls.
           OnRender host app = Some (S_OK_call host, app', calls) \<and>
           m_pRenderTarget app' = None \<and> m_pGraphLineBrush app' = None \<and>
           WndProcCore host WM_PAINT app =
             Some (0, app',
                   [if FAILED (S_OK_call host) then WriteToDebugConsole (S_OK_call host)
                    else ValidateRect],
                   calls) \<and>
           (\<forall>host2. \<not> FAILED (CreateHwndRenderTarget_hr host2) \<longrightarrow>
                     \<not> FAILED (CreateSolidColorBrush_hr host2) \<longrightarrow>
              (\<exists>app2. CreateDeviceResources host2 app' = (S_OK, app2) \<and>
                 m_pRenderTarget app2 =
                   Some \<lparr> pixelSize = SizeU (right (clientRect host2) - left (clientRect host2))
                                           (bottom (clientRect host2) - top (clientRect host2)) \<rparr> \<and>
                 m_pGraphLineBrush app2 = Some (SolidColorBrush Red)))"
proof -
  from assms(1,2) CreateDeviceResources_success obtain rt where rt: "m_pRenderTarget app1 = Some rt"
    by blast
  let ?app' = "app1 \<lparr> m_pRenderTarget := None, m_pGraphLineBrush := None \<rparr>"
  from OnRender_success_path [OF assms(1,2) rt] assms(3)
  obtain calls where r: "OnRender host app = Some (S_OK_call host, ?app', calls)"
    by simp
  note w = WndProcCore_WM_PAINT [OF r]
  have n: "\<forall>host2. \<not> FAILED (CreateHwndRenderTarget_hr host2) \<longrightarrow>
                     \<not> FAILED (CreateSolidColorBrush_hr host2) \<longrightarrow>
              (\<exists>app2. CreateDeviceResources host2 ?app' = (S_OK, app2) \<and>
                 m_pRenderTarget app2 =
                   Some \<lparr> pixelSize = SizeU (right (clientRect host2) - left (clientRect host2))
                                           (bottom (clientRect host2) - top (clientRect host2)) \<rparr> \<and>
                 m_pGraphLineBrush app2 = Some (SolidColorBrush Red))"
    by (simp add: CreateDeviceResources_def)
  from r w n show ?thesis
    by (intro exI [of _ ?app'] exI [of _ calls]) simp
qed

theorem OnRender_stale_surface_releases_witness:
  "CreateDeviceResources host_stale (App_constructor identity_plot) = (S_OK, app_ready) \<and>
   \<not> FAILED S_OK \<and>
   EndDraw_hr host_stale = D2DERR_RECREATE_TARGET \<and>
   S_OK_call host_stale = S_OK \<and>
   OnRender host_stale (App_constructor identity_plot)
     = Some (S_OK, App_constructor identity_plot, frame_2x2) \<and>
   WndProcCore host_stale WM_PAINT (App_constructor identity_plot)
     = Some (0, App_constructor identity_plot, [ValidateRect], frame_2x2) \<and>
   CreateDeviceResources host_stale_failed (App_constructor identity_plot) = (S_OK, app_ready) \<and>
   EndDraw_hr host_stale_failed = D2DERR_RECREATE_TARGET \<and>
   S_OK_call host_stale_failed = E_FAIL \<and>
   OnRender host_stale_failed (App_constructor identity_plot)
     = Some (E_FAIL, App_constructor identity_plot, frame_2x2) \<and>
   WndProcCore host_stale_failed WM_PAINT (App_constructor identity_plot)
     = Some (0, App_constructor identity_plot, [WriteToDebugConsole E_FAIL], frame_2x2) \<and>
   \<not> FAILED (CreateHwndRenderTarget_hr host_ok) \<and>
   \<not> FAILED (CreateSolidColorBrush_hr host_ok) \<and>
   CreateDeviceResources host_ok (App_constructor identity_plot) = (S_OK, app_ready)"
proof -
  have c: "CreateDeviceResources host_stale (App_constructor identity_plot) = (S_OK, app_ready)"
    and c': "CreateDeviceResources host_stale_failed (App_constructor identity_plot)
               = (S_OK, app_ready)"
    by (simp_all add: host_stale_failed_def example_defs eval_defs)
  have n: "\<not> FAILED S_OK"
    by (rule not_FAILED_S_OK)
  have e: "EndDraw_hr host_stale = D2DERR_RECREATE_TARGET"
    and e': "EndDraw_hr host_stale_failed = D2DERR_RECREATE_TARGET"
    and k: "S_OK_call host_stale = S_OK"
    and k': "S_OK_call host_stale_failed = E_FAIL"
    by (simp_all add: host_stale_failed_def host_stale_def host_ok_def)
  have h: "\<not> FAILED (CreateHwndRenderTarget_hr host_ok) \<and> \<not> FAILED (CreateSolidColorBrush_hr host_ok)"
    by (simp add: host_ok_def not_FAILED_S_OK)
  have a: "\<And>app'. m_pRenderTarget app' = None \<Longrightarrow> m_pGraphLineBrush app' = None \<Longrightarrow>
             m_inputFunction app' = identity_plot \<Longrightarrow> app' = App_constructor identity_plot"
    by (simp add: App_constructor_def)
  have r: "OnRender host_stale (App_constructor identity_plot)
             = Some (S_OK, App_constructor identity_plot, frame_2x2)"
    and r': "OnRender host_stale_failed (App_constructor identity_plot)
             = Some (E_FAIL, App_constructor identity_plot, frame_2x2)"
    by (simp_all add: host_stale_failed_def example_defs eval_defs)
  from OnRender_stale_surface_releases [OF c n e] OnRender_stale_surface_releases [OF c' n e']
    r r' h k k' c c' n e e'
  show ?thesis
    by (auto simp: CreateDeviceResources_ok_example FAILED_E_FAIL)
qed

text \<open>
  Claim C5. If the creation of the render target or of the brush fails during a
  redraw, the redraw returns that failure code without issuing any call on the
  render target; the paint handler writes the code to the debug console and does
  not validate the window. The resource whose creation failed is still absent
  afterwards, so the next redraw attempts the creation again.
\<close>

theorem OnRender_creation_failure:
  assumes "(m_pRenderTarget app = None \<and> FAILED (CreateHwndRenderTarget_hr host)) \<or>
           (m_pGraphLineBrush app = None \<and> FAILED (CreateSolidColorBrush_hr host))"
  shows "\<exists>hr app1.
           hr = (if m_pRenderTarget app = None \<and> FAILED (CreateHwndRenderTarget_hr host)
                 then CreateHwndRenderTarget_hr host else CreateSolidColorBrush_hr host) \<and>
           FAILED hr \<and>
           OnRender host app = Some (hr, app1, []) \<and>
           WndProcCore host WM_PAINT app = Some (0, app1, [WriteToDebugConsole hr], []) \<and>
           (if m_pRenderTarget app = None \<and> FAILED (CreateHwndRenderTarget_hr host)
            then m_pRenderTarget app1 = None else m_pGraphLineBrush app1 = None) \<and>
           (\<forall>host2. \<not> FAILED (CreateHwndRenderTarget_hr host2) \<longrightarrow>
                     \<not> FAILED (CreateSolidColorBrush_hr host2) \<longrightarrow>
              (\<exists>app2. CreateDeviceResources host2 app1 = (S_OK, app2) \<and>
                 m_pRenderTarget app2 \<noteq> None \<and> m_pGraphLineBrush app2 \<noteq> None))"
proof -
  obtain hr app1 where c: "CreateDeviceResources host app = (hr, app1)"
    by (cases "CreateDeviceResources host app")
  from assms c have hr: "hr = (if m_pRenderTarget app = None \<and> FAILED (CreateHwndRenderTarget_hr host)
                 then CreateHwndRenderTarget_hr host else CreateSolidColorBrush_hr host)"
    and f: "FAILED hr"
    and m: "if m_pRenderTarget app = None \<and> FAILED (CreateHwndRenderTarget_hr host)
            then m_pRenderTarget app1 = None else m_pGraphLineBrush app1 = None"
    by (auto simp: CreateDeviceResources_def split: if_splits)
  from c f have r: "OnRender host app = Some (hr, app1, [])"
    by (simp add: OnRender_def)
  from WndProcCore_WM_PAINT [OF r] f
  have w: "WndProcCore host WM_PAINT app = Some (0, app1, [WriteToDebugConsole hr], [])"
    by simp
  from hr f r w m CreateDeviceResources_recreates show ?thesis
    by blast
qed

theorem OnRender_creation_failure_witness:
  "m_pRenderTarget (App_constructor identity_plot) = None \<and>
   FAILED (CreateHwndRenderTarget_hr host_no_target) \<and>
   OnRender host_no_target (App_constructor identity_plot)
     = Some (E_FAIL, App_constructor identity_plot, []) \<and>
   WndProcCore host_no_target WM_PAINT (App_constructor identity_plot)
     = Some (0, App_constructor identity_plot, [WriteToDebugConsole E_FAIL], []) \<and>
   m_pGraphLineBrush (App_constructor identity_plot) = None \<and>
   FAILED (CreateSolidColorBrush_hr host_no_brush) \<and>
   OnRender host_no_brush (App_constructor identity_plot)
     = Some (E_FAIL, app_ready \<lparr> m_pGraphLineBrush := None \<rparr>, []) \<and>
   \<not> FAILED (CreateHwndRenderTarget_hr host_ok) \<and>
   \<not> FAILED (CreateSolidColorBrush_hr host_ok) \<and>
   CreateDeviceResources host_ok (App_constructor identity_plot) = (S_OK, app_ready) \<and>
   CreateDeviceResources host_ok (app_ready \<lparr> m_pGraphLineBrush := None \<rparr>) = (S_OK, app_ready)"
proof -
  have a: "m_pRenderTarget (App_constructor identity_plot) = None \<and>
           FAILED (CreateHwndRenderTarget_hr host_no_target)"
    by (simp add: App_constructor_def host_no_target_def FAILED_E_FAIL)
  have b: "m_pGraphLineBrush (App_constructor identity_plot) = None \<and>
           FAILED (CreateSolidColorBrush_hr host_no_brush)"
    by (simp add: App_constructor_def host_no_brush_def FAILED_E_FAIL)
  have h: "\<not> FAILED (CreateHwndRenderTarget_hr host_ok) \<and> \<not> FAILED (CreateSolidColorBrush_hr host_ok)"
    by (simp add: host_ok_def not_FAILED_S_OK)
  have r1: "OnRender host_no_target (App_constructor identity_plot)
     = Some (E_FAIL, App_constructor identity_plot, [])"
    by (simp add: example_defs eval_defs)
  have r2: "OnRender host_no_brush (App_constructor identity_plot)
     = Some (E_FAIL, app_ready \<lparr> m_pGraphLineBrush := None \<rparr>, [])"
    by (simp add: host_no_brush_def example_defs eval_defs)
  have c2: "CreateDeviceResources host_ok (app_ready \<lparr> m_pGraphLineBrush := None \<rparr>) = (S_OK, app_ready)"
    by (simp add: example_defs eval_defs)
  from OnRender_creation_failure [of "App_constructor identity_plot" host_no_target]
    OnRender_creation_failure [of "App_constructor identity_plot" host_no_brush]
    a b h r1 r2 c2 CreateDeviceResources_ok_example
  show ?thesis
    by auto
qed

subsection \<open>Two redraws in a row\<close>

text \<open>
  Claim C8, as stated, fails: a first redraw whose render target cannot be
  created issues no call at all, and a following redraw that obtains its
  resources issues the whole frame, with no resize and no stale-surface signal
  in between.
\<close>

theorem redraw_not_idempotent_counterexample:
  "EndDraw_hr host_no_target \<noteq> D2DERR_RECREATE_TARGET \<and>
   OnRender host_no_target (App_constructor identity_plot)
     = Some (E_FAIL, App_constructor identity_plot, []) \<and>
   OnRender host_ok (App_constructor identity_plot) = Some (S_OK, app_ready, frame_2x2) \<and>
   frame_2x2 \<noteq> []"
  by (simp add: OnRender_no_target_example OnRender_ok_example)
     (simp add: example_defs S_OK_def D2DERR_RECREATE_TARGET_def)

text \<open>
  Claim C8, amended. Two redraws in a row, with no resize between them, the first
  one obtaining its resources and not ending on the stale-surface signal, issue
  the same sequence of calls on the render target.
\<close>

theorem redraw_idempotent:
  assumes "OnRender host1 app = Some (hr1, app1, calls1)"
    and "OnRender host2 app1 = Some (hr2, app2, calls2)"
    and "\<not> FAILED (fst (CreateDeviceResources host1 app))"
    and "EndDraw_hr host1 \<noteq> D2DERR_RECREATE_TARGET"
  shows "calls2 = calls1"
proof -
  obtain hr0 app0 where c: "CreateDeviceResources host1 app = (hr0, app0)"
    by (cases "CreateDeviceResources host1 app")
  with assms(3) have nf: "\<not> FAILED hr0" by simp
  from CreateDeviceResources_success [OF c nf]
  obtain rt where rt: "m_pRenderTarget app0 = Some rt" and br: "m_pGraphLineBrush app0 \<noteq> None"
    by blast
  from OnRender_success_path [OF c nf rt] assms(1,4)
  have a1: "app1 = app0"
    and c1: "calls1 = [BeginDraw, SetTransform_Identity, Clear White]
           @ map (\<lambda>x. DrawLine (ComputePoint (m_inputFunction app) (GetSize rt) (x - 1))
                               (ComputePoint (m_inputFunction app) (GetSize rt) x)
                               (m_pGraphLineBrush app0) 2)
                 [1..\<lceil>width (GetSize rt)\<rceil>]
           @ [EndDraw]"
    by simp_all
  have f: "m_inputFunction app0 = m_inputFunction app"
    using c by (rule CreateDeviceResources_inputFunction)
  have c2: "CreateDeviceResources host2 app0 = (S_OK, app0)"
    using rt br by (simp add: CreateDeviceResources_present)
  from OnRender_success_path [OF c2 not_FAILED_S_OK rt] assms(2) a1 f c1
  show ?thesis by simp
qed

theorem redraw_idempotent_witness:
  "OnRender host_ok (App_constructor identity_plot) = Some (S_OK, app_ready, frame_2x2) \<and>
   OnRender host_no_target app_ready = Some (S_OK, app_ready, frame_2x2) \<and>
   fst (CreateDeviceResources host_ok (App_constructor identity_plot)) = S_OK \<and>
   EndDraw_hr host_ok = S_OK"
proof -
  have r2: "OnRender host_no_target app_ready = Some (S_OK, app_ready, frame_2x2)"
    by (simp add: example_defs eval_defs)
  have n: "\<not> FAILED (fst (CreateDeviceResources host_ok (App_constructor identity_plot)))"
    by (simp add: CreateDeviceResources_ok_example not_FAILED_S_OK)
  have e: "EndDraw_hr host_ok \<noteq> D2DERR_RECREATE_TARGET"
    by (simp add: host_ok_def S_OK_def D2DERR_RECREATE_TARGET_def)
  have e': "EndDraw_hr host_ok = S_OK"
    by (simp add: host_ok_def)
  from redraw_idempotent [OF OnRender_ok_example r2 n e] r2 e' show ?thesis
    by (simp add: OnRender_ok_example CreateDeviceResources_ok_example)
qed

subsection \<open>The brush exists only while the render target exists\<close>

lemma CreateDeviceResources_invariant:
  assumes "CreateDeviceResources host app = (hr, app1)"
    and "m_pGraphLineBrush app \<noteq> None \<longrightarrow> m_pRenderTarget app \<noteq> None"
  shows "m_pGraphLineBrush app1 \<noteq> None \<longrightarrow> m_pRenderTarget app1 \<noteq> None"
  using assms by (auto simp: CreateDeviceResources_def split: if_splits)

lemma OnRender_invariant:
  assumes "OnRender host app = Some (hr, app', calls)"
    and "m_pGraphLineBrush app \<noteq> None \<longrightarrow> m_pRenderTarget app \<noteq> None"
  shows "m_pGraphLineBrush app' \<noteq> None \<longrightarrow> m_pRenderTarget app' \<noteq> None"
proof (cases "CreateDeviceResources host app")
  case (Pair hr0 app1)
  from CreateDeviceResources_invariant [OF Pair assms(2)]
  have i: "m_pGraphLineBrush app1 \<noteq> None \<longrightarrow> m_pRenderTarget app1 \<noteq> None" .
  from assms(1) Pair i show ?thesis
    by (auto simp: OnRender_def Let_def SafeRelease_def split: if_splits option.splits)
qed

lemma OnResize_invariant:
  assumes "m_pGraphLineBrush app \<noteq> None \<longrightarrow> m_pRenderTarget app \<noteq> None"
  shows "m_pGraphLineBrush (OnResize w h app) \<noteq> None \<longrightarrow> m_pRenderTarget (OnResize w h app) \<noteq> None"
  using assms by (auto simp: OnResize_def split: option.splits)

lemma App_destructor_released:
  "m_pRenderTarget (App_destructor app) = None \<and> m_pGraphLineBrush (App_destructor app) = None"
  by (simp add: App_destructor_def SafeRelease_def split: option.splits)

lemma WndProcCore_invariant:
  assumes "WndProcCore host message app = Some (result, app', hostCalls, drawCalls)"
    and "m_pGraphLineBrush app \<noteq> None \<longrightarrow> m_pRenderTarget app \<noteq> None"
  shows "m_pGraphLineBrush app' \<noteq> None \<longrightarrow> m_pRenderTarget app' \<noteq> None"
proof (cases message)
  case (WM_SIZE lParam)
  with assms(1) have "app' = OnResize (ucast (LOWORD lParam)) (ucast (HIWORD lParam)) app"
    by (simp add: WndProcCore_def)
  with OnResize_invariant [OF assms(2)] show ?thesis by simp
next
  case WM_PAINT
  with assms(1) obtain hr calls where "OnRender host app = Some (hr, app', calls)"
    by (auto simp: WndProcCore_def split: option.splits if_splits)
  from OnRender_invariant [OF this assms(2)] show ?thesis .
qed (use assms in \<open>auto simp: WndProcCore_def\<close>)

text \<open>
  Claim C10. In every reachable state the cached brush is non-null only if the
  cached render target is non-null. A redraw (with or without the stale-surface
  discard) and a resize preserve this, and the destructor leaves both null.
\<close>

theorem brush_only_with_render_target:
  "(reachable app \<longrightarrow> (m_pGraphLineBrush app \<noteq> None \<longrightarrow> m_pRenderTarget app \<noteq> None)) \<and>
   ((m_pGraphLineBrush app \<noteq> None \<longrightarrow> m_pRenderTarget app \<noteq> None) \<longrightarrow>
      (\<forall>host hr app' calls. OnRender host app = Some (hr, app', calls) \<longrightarrow>
         (m_pGraphLineBrush app' \<noteq> None \<longrightarrow> m_pRenderTarget app' \<noteq> None)) \<and>
      (\<forall>w h. m_pGraphLineBrush (OnResize w h app) \<noteq> None \<longrightarrow>
         m_pRenderTarget (OnResize w h app) \<noteq> None)) \<and>
   m_pRenderTarget (App_destructor app) = None \<and> m_pGraphLineBrush (App_destructor app) = None"
proof -
  have "m_pGraphLineBrush app \<noteq> None \<longrightarrow> m_pRenderTarget app \<noteq> None" if "reachable app"
    using that
  proof (induction rule: reachable.induct)
    case (constructed inputFunction)
    show ?case by (simp add: App_constructor_def)
  next
    case (handled app host message result app' hostCalls drawCalls)
    from WndProcCore_invariant [OF handled.hyps(2) handled.IH] show ?case .
  next
    case (destroyed app)
    show ?case by (simp add: App_destructor_released)
  qed
  with OnRender_invariant OnResize_invariant App_destructor_released show ?thesis
    by blast
qed


theorem brush_only_with_render_target_witness:
  "reachable app_ready \<and>
   m_pGraphLineBrush app_ready = Some (SolidColorBrush Red) \<and>
   m_pRenderTarget app_ready = Some \<lparr> pixelSize = SizeU 2 2 \<rparr> \<and>
   OnRender host_stale app_ready = Some (S_OK, App_constructor identity_plot, frame_2x2) \<and>
   m_pGraphLineBrush (App_constructor identity_plot) = None \<and>
   m_pRenderTarget (OnResize 4 3 app_ready) = Some \<lparr> pixelSize = SizeU 4 3 \<rparr> \<and>
   m_pGraphLineBrush (OnResize 4 3 app_ready) = Some (SolidColorBrush Red) \<and>
   m_pRenderTarget (App_destructor app_ready) = None \<and>
   m_pGraphLineBrush (App_destructor app_ready) = None"
proof -
  have w: "WndProcCore host_ok WM_PAINT (App_constructor identity_plot)
             = Some (0, app_ready, [ValidateRect], frame_2x2)"
    using WndProcCore_WM_PAINT [OF OnRender_ok_example] by (simp add: not_FAILED_S_OK)
  have r: "reachable app_ready"
    by (rule reachable.handled [OF reachable.constructed w])
  have s: "OnRender host_stale app_ready = Some (S_OK, App_constructor identity_plot, frame_2x2)"
    by (simp add: example_defs eval_defs)
  have z: "m_pRenderTarget (OnResize 4 3 app_ready) = Some \<lparr> pixelSize = SizeU 4 3 \<rparr> \<and>
           m_pGraphLineBrush (OnResize 4 3 app_ready) = Some (SolidColorBrush Red)"
    by (simp add: OnResize_def Resize_def app_ready_def)
  from brush_only_with_render_target [of app_ready] r s z show ?thesis
    by (simp add: app_ready_def App_constructor_def)
qed

subsection \<open>Points drawn after a resize\<close>










end
